theory Spec2Isabelle
  imports Main "HOL-Library.Word"
begin

section \<open>Upload registry (upload.js)\<close>

text \<open>
  The module keeps one process-wide \<open>Map\<close> from file identifiers to file records.
  \<open>uploadFile\<close> draws 16 bytes from \<open>crypto.randomBytes\<close>, renders them in
  hexadecimal, renders the payload's buffer in base64 inside a data URL, stores the record
  and returns a summary. Any exception inside is rethrown as
  \<open>Error('File upload failed')\<close>.
\<close>

type_synonym byte = "8 word"

subsection \<open>Buffer renderings: hex and base64\<close>

text \<open>\<open>Buffer.toString('hex')\<close>: two lower-case digits per byte, high nibble first.\<close>

definition hex_alphabet :: string where
  "hex_alphabet = ''0123456789abcdef''"

definition hex_digit :: "nat \<Rightarrow> char" where
  "hex_digit n = hex_alphabet ! n"

definition hex_byte :: "byte \<Rightarrow> string" where
  "hex_byte b = [hex_digit (unat b div 16), hex_digit (unat b mod 16)]"

definition to_hex :: "byte list \<Rightarrow> string" where
  "to_hex bs = concat (map hex_byte bs)"

definition is_hex_char :: "char \<Rightarrow> bool" where
  "is_hex_char c = (c \<in> set hex_alphabet)"

text \<open>
  \<open>Buffer.toString('base64')\<close>: the standard alphabet of RFC 4648. Three bytes
  (24 bits) are regrouped into four 6-bit values, written here with \<open>div\<close> and
  \<open>mod\<close> on the bytes' values; the last group is padded with \<open>=\<close>.
\<close>

definition b64_char :: "nat \<Rightarrow> char" where
  "b64_char n =
     (if n < 26 then char_of (65 + n)
      else if n < 52 then char_of (71 + n)
      else if n < 62 then char_of (n - 4)
      else if n = 62 then CHR ''+'' else CHR ''/'')"

fun to_base64 :: "byte list \<Rightarrow> string" where
  "to_base64 (a # b # c # rest) =
     b64_char (unat a div 4) #
     b64_char (unat a mod 4 * 16 + unat b div 16) #
     b64_char (unat b mod 16 * 4 + unat c div 64) #
     b64_char (unat c mod 64) # to_base64 rest"
| "to_base64 [a, b] =
     [b64_char (unat a div 4),
      b64_char (unat a mod 4 * 16 + unat b div 16),
      b64_char (unat b mod 16 * 4), CHR ''='']"
| "to_base64 [a] =
     [b64_char (unat a div 4), b64_char (unat a mod 4 * 16), CHR ''='', CHR ''='']"
| "to_base64 [] = []"

text \<open>
  The decoder a reader of the data URL applies (\<open>atob\<close>, \<open>Buffer.from(s, 'base64')\<close>).
  It is not part of the module; it is the inverse against which the stored
  representation is checked. It refuses anything that is not padded canonical base64 text.
\<close>

definition b64_index :: "char \<Rightarrow> nat option" where
  "b64_index c =
     (let k = (of_char c :: nat)
      in if 65 \<le> k \<and> k \<le> 90 then Some (k - 65)
         else if 97 \<le> k \<and> k \<le> 122 then Some (k - 71)
         else if 48 \<le> k \<and> k \<le> 57 then Some (k + 4)
         else if k = 43 then Some 62
         else if k = 47 then Some 63
         else None)"

definition b64_group2 :: "char \<Rightarrow> char \<Rightarrow> byte list option" where
  "b64_group2 c0 c1 =
     (case (b64_index c0, b64_index c1) of
        (Some i0, Some i1) \<Rightarrow>
          (if i1 mod 16 = 0 then Some [of_nat (i0 * 4 + i1 div 16)] else None)
      | _ \<Rightarrow> None)"

definition b64_group3 :: "char \<Rightarrow> char \<Rightarrow> char \<Rightarrow> byte list option" where
  "b64_group3 c0 c1 c2 =
     (case (b64_index c0, b64_index c1, b64_index c2) of
        (Some i0, Some i1, Some i2) \<Rightarrow>
          (if i2 mod 4 = 0
           then Some [of_nat (i0 * 4 + i1 div 16), of_nat (i1 mod 16 * 16 + i2 div 4)]
           else None)
      | _ \<Rightarrow> None)"

definition b64_group4 :: "char \<Rightarrow> char \<Rightarrow> char \<Rightarrow> char \<Rightarrow> byte list option" where
  "b64_group4 c0 c1 c2 c3 =
     (case (b64_index c0, b64_index c1, b64_index c2, b64_index c3) of
        (Some i0, Some i1, Some i2, Some i3) \<Rightarrow>
          Some [of_nat (i0 * 4 + i1 div 16), of_nat (i1 mod 16 * 16 + i2 div 4),
                of_nat (i2 mod 4 * 64 + i3)]
      | _ \<Rightarrow> None)"

fun from_base64 :: "string \<Rightarrow> byte list option" where
  "from_base64 [] = Some []"
| "from_base64 (c0 # c1 # c2 # c3 # rest) =
     (if c3 = CHR ''='' then
        (if rest \<noteq> [] then None
         else if c2 = CHR ''='' then b64_group2 c0 c1
         else b64_group3 c0 c1 c2)
      else
        (case b64_group4 c0 c1 c2 c3 of
           None \<Rightarrow> None
         | Some bs \<Rightarrow> (case from_base64 rest of None \<Rightarrow> None | Some more \<Rightarrow> Some (bs @ more))))"
| "from_base64 _ = None"

subsection \<open>The registry and its environment\<close>

text \<open>
  A payload as \<open>express-fileupload\<close> hands it over. \<open>f_data\<close> is \<open>None\<close> for an
  object that carries no buffer (\<open>file.data\<close> undefined or null): there
  \<open>file.data.toString\<close> raises a TypeError.
\<close>

record upload_file =
  f_name :: string
  f_data :: "byte list option"
  f_size :: int
  f_mimetype :: string

record file_info =
  fi_id :: string
  fi_name :: string
  fi_size :: int
  fi_mimetype :: string
  fi_dataUrl :: string
  fi_createdAt :: nat

record upload_result =
  r_id :: string
  r_url :: string
  r_name :: string
  r_size :: int

text \<open>
  The process state the module touches: the \<open>uploads\<close> map and the system's random
  source, an unbounded tape of bytes of which \<open>rng_pos\<close> have been consumed. Time
  (\<open>new Date()\<close>, in milliseconds since the epoch) is an argument of each call; the
  ISO-8601 rendering of an instant is not modelled, the instant itself is stored.
\<close>

record registry =
  uploads :: "string \<rightharpoonup> file_info"
  rng_tape :: "nat \<Rightarrow> byte"
  rng_pos :: nat

datatype js_error = Error string

definition randomBytes :: "nat \<Rightarrow> registry \<Rightarrow> byte list \<times> registry" where
  "randomBytes n s =
     (map (rng_tape s) [rng_pos s ..< rng_pos s + n], s\<lparr>rng_pos := rng_pos s + n\<rparr>)"

definition uploadFile :: "nat \<Rightarrow> upload_file \<Rightarrow> registry \<Rightarrow> (js_error + upload_result) \<times> registry" where
  "uploadFile now file s =
     (let (bytes, s1) = randomBytes 16 s;
          fileId = to_hex bytes
      in case f_data file of
           None \<Rightarrow> (Inl (Error ''File upload failed''), s1)
         | Some buf \<Rightarrow>
             (let base64Data = to_base64 buf;
                  dataUrl = ''data:'' @ f_mimetype file @ '';base64,'' @ base64Data;
                  fileInfo = \<lparr>fi_id = fileId, fi_name = f_name file, fi_size = f_size file,
                              fi_mimetype = f_mimetype file, fi_dataUrl = dataUrl,
                              fi_createdAt = now\<rparr>
              in (Inr \<lparr>r_id = fileId, r_url = dataUrl, r_name = f_name file,
                        r_size = f_size file\<rparr>,
                  s1\<lparr>uploads := (uploads s1)(fileId \<mapsto> fileInfo)\<rparr>)))"

definition getFile :: "registry \<Rightarrow> string \<Rightarrow> file_info option" where
  "getFile s fileId = uploads s fileId"

section \<open>Backing store (database.js)\<close>

text \<open>
  The PostgreSQL pool, as far as the modules below query it. A query on a pool that cannot
  reach the server rejects, which the callers see as a thrown exception. Identifiers are
  UUIDs in their text form; \<open>username\<close> is declared \<open>UNIQUE\<close>.
  \<open>motorcycles\<close> holds the identifiers of the rows of that table (the target of the
  foreign key of \<open>motorcycle_images\<close>); \<open>uuid_tape\<close> is the server's
  \<open>gen_random_uuid()\<close>.
\<close>

type_synonym user_id = string

record admin_user =
  au_id :: user_id
  au_username :: string
  au_password_hash :: string

record image_row =
  img_id :: string
  img_motorcycle_id :: string
  img_image_url :: string
  img_image_name :: string
  img_size :: int
  img_is_primary :: bool

record database =
  connected :: bool
  admin_users :: "admin_user list"
  motorcycles :: "string list"
  motorcycle_images :: "image_row list"
  uuid_tape :: "nat \<Rightarrow> string"
  uuid_pos :: nat

text \<open>\<open>SELECT * FROM admin_users WHERE username = $1\<close>\<close>

definition select_admin_by_username :: "database \<Rightarrow> string \<Rightarrow> js_error + admin_user list" where
  "select_admin_by_username db username =
     (if connected db then Inr (filter (\<lambda>u. au_username u = username) (admin_users db))
      else Inl (Error ''query failed''))"

text \<open>
  \<open>SELECT id FROM admin_users WHERE id = $1\<close>. The parameter is \<open>None\<close> when the
  token carries no \<open>userId\<close>: the driver sends NULL, which equals no row.
\<close>

definition select_admin_id :: "database \<Rightarrow> user_id option \<Rightarrow> js_error + user_id list" where
  "select_admin_id db userId =
     (if connected db
      then Inr (filter (\<lambda>i. Some i = userId) (map au_id (admin_users db)))
      else Inl (Error ''query failed''))"

text \<open>\<open>SELECT COUNT(*) FROM motorcycle_images WHERE motorcycle_id = $1\<close>\<close>

definition count_images :: "database \<Rightarrow> string \<Rightarrow> js_error + nat" where
  "count_images db mid =
     (if connected db
      then Inr (length (filter (\<lambda>r. img_motorcycle_id r = mid) (motorcycle_images db)))
      else Inl (Error ''query failed''))"

text \<open>
  \<open>INSERT INTO motorcycle_images (...) VALUES (...) RETURNING ...\<close>: refused when the
  motorcycle does not exist (foreign key), otherwise the new row is returned.
\<close>

definition insert_image ::
  "database \<Rightarrow> string \<Rightarrow> string \<Rightarrow> string \<Rightarrow> int \<Rightarrow> bool \<Rightarrow> js_error + (image_row \<times> database)" where
  "insert_image db mid url nm sz isPrimary =
     (if \<not> connected db then Inl (Error ''query failed'')
      else if mid \<notin> set (motorcycles db) then Inl (Error ''foreign key violation'')
      else
        (let row = \<lparr>img_id = uuid_tape db (uuid_pos db), img_motorcycle_id = mid,
                     img_image_url = url, img_image_name = nm, img_size = sz,
                     img_is_primary = isPrimary\<rparr>
         in Inr (row, db\<lparr>motorcycle_images := motorcycle_images db @ [row],
                         uuid_pos := uuid_pos db + 1\<rparr>)))"

section \<open>Tokens and credentials (auth.js)\<close>

subsection \<open>The libraries the module calls\<close>

text \<open>
  \<open>jsonwebtoken\<close> and \<open>bcrypt\<close> are third-party packages; what the module
  relies on is written out here from their documented behaviour.

  A JSON Web Token, as \<open>jsonwebtoken\<close> sees it once the compact text is parsed: the
  claims of the payload, each of which may be missing, and the secret under which its
  HMAC signature verifies (\<open>None\<close> for a token without such a signature). A
  signature is taken to verify under the secret it was made with and under no other.
  Times in claims are seconds since the epoch.
\<close>

record jwt_claims =
  c_userId :: "user_id option"
  c_type :: "string option"
  c_iat :: "nat option"
  c_nbf :: "nat option"
  c_exp :: "nat option"

record jwt =
  jwt_payload :: jwt_claims
  jwt_key :: "string option"

text \<open>
  What the process is configured with and linked against: the environment variables the
  code reads, the text form of tokens (\<open>jwt_encode\<close> writes what \<open>jwt.sign\<close>
  returns, \<open>jwt_decode\<close> parses a text, \<open>None\<close> for a malformed one) and
  \<open>bcrypt.compare\<close>, which resolves to a boolean for a password and a stored hash.
  \<open>env_MAX_FILE_SIZE\<close> is what \<open>parseInt\<close> reads from the variable,
  \<open>None\<close> for NaN.
\<close>

record env =
  env_JWT_SECRET :: "string option"
  env_MAX_FILE_SIZE :: "int option"
  jwt_encode :: "jwt \<Rightarrow> string"
  jwt_decode :: "string \<Rightarrow> jwt option"
  bcrypt_compare :: "string \<Rightarrow> string \<Rightarrow> bool"

text \<open>\<open>process.env.JWT_SECRET || 'mwirutijnr-secret-key-2025'\<close>: unset and empty both fall back.\<close>

definition JWT_SECRET :: "env \<Rightarrow> string" where
  "JWT_SECRET E =
     (case env_JWT_SECRET E of
        None \<Rightarrow> ''mwirutijnr-secret-key-2025''
      | Some v \<Rightarrow> if v = [] then ''mwirutijnr-secret-key-2025'' else v)"

text \<open>
  \<open>jwt.sign(payload, secret, {expiresIn})\<close> at clock \<open>now\<close> (milliseconds): stamps
  \<open>iat\<close> with the current second and \<open>exp\<close> with \<open>iat\<close> plus the lifetime, signs
  with the secret.
\<close>

definition jwt_sign :: "env \<Rightarrow> nat \<Rightarrow> jwt_claims \<Rightarrow> string \<Rightarrow> nat \<Rightarrow> string" where
  "jwt_sign E now payload secret expiresIn =
     jwt_encode E
       \<lparr>jwt_payload = payload\<lparr>c_iat := Some (now div 1000),
                                c_exp := Some (now div 1000 + expiresIn)\<rparr>,
        jwt_key = Some secret\<rparr>"

text \<open>
  \<open>jwt.verify(token, secret)\<close> at clock \<open>now\<close>: throws on a malformed token, on a
  signature that does not verify under the secret, on \<open>nbf\<close> in the future and on
  \<open>exp\<close> reached; otherwise returns the payload.
\<close>

definition jwt_verify :: "env \<Rightarrow> nat \<Rightarrow> string \<Rightarrow> string \<Rightarrow> js_error + jwt_claims" where
  "jwt_verify E now token secret =
     (case jwt_decode E token of
        None \<Rightarrow> Inl (Error ''jwt malformed'')
      | Some j \<Rightarrow>
          if jwt_key j \<noteq> Some secret then Inl (Error ''invalid signature'')
          else
            (case c_nbf (jwt_payload j) of
               Some n \<Rightarrow> if now div 1000 < n then Inl (Error ''jwt not active'') else
                 (case c_exp (jwt_payload j) of
                    Some e \<Rightarrow> if e \<le> now div 1000 then Inl (Error ''jwt expired'')
                              else Inr (jwt_payload j)
                  | None \<Rightarrow> Inr (jwt_payload j))
             | None \<Rightarrow>
                 (case c_exp (jwt_payload j) of
                    Some e \<Rightarrow> if e \<le> now div 1000 then Inl (Error ''jwt expired'')
                              else Inr (jwt_payload j)
                  | None \<Rightarrow> Inr (jwt_payload j))))"

subsection \<open>The module\<close>

definition generateToken :: "env \<Rightarrow> nat \<Rightarrow> user_id \<Rightarrow> string" where
  "generateToken E now userId =
     jwt_sign E now
       \<lparr>c_userId = Some userId, c_type = Some ''admin'', c_iat = None, c_nbf = None,
        c_exp = None\<rparr>
       (JWT_SECRET E) (24 * 60 * 60)"

text \<open>\<open>null\<close> is \<open>None\<close>.\<close>

definition verifyToken :: "env \<Rightarrow> nat \<Rightarrow> string \<Rightarrow> jwt_claims option" where
  "verifyToken E now token =
     (case jwt_verify E now token (JWT_SECRET E) of
        Inl error \<Rightarrow> None
      | Inr decoded \<Rightarrow> Some decoded)"

text \<open>
  The object \<open>adminLogin\<close> returns; a field the object does not have is \<open>None\<close>.
  \<open>l_expiry\<close> is the instant in milliseconds that the code renders with
  \<open>toISOString\<close>. A \<open>Date\<close> holds at most 8640000000000000 milliseconds; beyond
  that \<open>new Date(...)\<close> is invalid and \<open>toISOString\<close> throws a RangeError, which
  the \<open>catch\<close> of \<open>adminLogin\<close> answers with \<open>Server error\<close>.
\<close>

record login_result =
  l_success :: bool
  l_error :: "string option"
  l_token :: "string option"
  l_expiry :: "nat option"

definition adminLogin :: "env \<Rightarrow> database \<Rightarrow> nat \<Rightarrow> string \<Rightarrow> string \<Rightarrow> login_result" where
  "adminLogin E db now username password =
     (case select_admin_by_username db username of
        Inl error \<Rightarrow>
          \<lparr>l_success = False, l_error = Some ''Server error'', l_token = None, l_expiry = None\<rparr>
      | Inr [] \<Rightarrow>
          \<lparr>l_success = False, l_error = Some ''Invalid credentials'', l_token = None,
           l_expiry = None\<rparr>
      | Inr (user # _) \<Rightarrow>
          if \<not> bcrypt_compare E password (au_password_hash user) then
            \<lparr>l_success = False, l_error = Some ''Invalid credentials'', l_token = None,
             l_expiry = None\<rparr>
          else if 8640000000000000 < now + 24 * 60 * 60 * 1000 then
            \<lparr>l_success = False, l_error = Some ''Server error'', l_token = None,
             l_expiry = None\<rparr>
          else
            \<lparr>l_success = True, l_error = None,
             l_token = Some (generateToken E now (au_id user)),
             l_expiry = Some (now + 24 * 60 * 60 * 1000)\<rparr>)"

record verify_result =
  v_valid :: bool
  v_userId :: "user_id option"

definition verifyAdminToken :: "env \<Rightarrow> database \<Rightarrow> nat \<Rightarrow> string \<Rightarrow> verify_result" where
  "verifyAdminToken E db now token =
     (case verifyToken E now token of
        None \<Rightarrow> \<lparr>v_valid = False, v_userId = None\<rparr>
      | Some decoded \<Rightarrow>
          if c_type decoded \<noteq> Some ''admin'' then \<lparr>v_valid = False, v_userId = None\<rparr>
          else
            (case select_admin_id db (c_userId decoded) of
               Inl error \<Rightarrow> \<lparr>v_valid = False, v_userId = None\<rparr>
             | Inr rows \<Rightarrow> \<lparr>v_valid = (length rows > 0), v_userId = c_userId decoded\<rparr>))"

text \<open>\<open>String.prototype.startsWith\<close> and \<open>String.prototype.split\<close> on a one-character separator.\<close>

definition startsWith :: "string \<Rightarrow> string \<Rightarrow> bool" where
  "startsWith s p = (take (length p) s = p)"

fun split :: "char \<Rightarrow> string \<Rightarrow> string list" where
  "split sep [] = [[]]"
| "split sep (c # cs) =
     (if c = sep then [] # split sep cs
      else (case split sep cs of [] \<Rightarrow> [[c]] | piece # pieces \<Rightarrow> (c # piece) # pieces))"

text \<open>
  The middleware either answers the request itself (\<open>res.status(401).json({error})\<close>) or
  sets \<open>req.userId\<close> and calls \<open>next()\<close>. An absent \<open>authorization\<close> header is
  \<open>None\<close>. Element 1 of the split header is \<open>undefined\<close> when there is none, and
  \<open>jwt.verify(undefined)\<close> throws.
\<close>

record request_headers =
  authorization :: "string option"

datatype gate = Respond nat string | Next "user_id option"

definition authMiddleware :: "env \<Rightarrow> nat \<Rightarrow> request_headers \<Rightarrow> gate" where
  "authMiddleware E now headers =
     (case authorization headers of
        None \<Rightarrow> Respond 401 ''No token provided''
      | Some authHeader \<Rightarrow>
          if authHeader = [] then Respond 401 ''No token provided''
          else if \<not> startsWith authHeader ''Bearer '' then Respond 401 ''No token provided''
          else
            (case (case split CHR '' '' authHeader of
                     _ # token # _ \<Rightarrow> verifyToken E now token
                   | _ \<Rightarrow> None) of
               None \<Rightarrow> Respond 401 ''Invalid token''
             | Some decoded \<Rightarrow>
                 if c_type decoded \<noteq> Some ''admin'' then Respond 401 ''Invalid token''
                 else Next (c_userId decoded)))"

section \<open>The image upload route (server.js)\<close>

text \<open>
  \<open>POST /api/motorcycles/:id/images\<close>, the handler behind the middleware.
  \<open>req.files\<close> is absent (\<open>None\<close>) or an object whose fields hold one file or an
  array of files. The response is an error body with its status or the list of inserted
  rows. One clock reading stands for the whole request.
\<close>

datatype files_field = Single upload_file | Several "upload_file list"

record images_request =
  params_id :: string
  files :: "(string \<times> files_field) list option"

datatype response = ErrorJson nat string | ImagesJson "image_row list"

text \<open>\<open>parseInt(process.env.MAX_FILE_SIZE) || 5 * 1024 * 1024\<close>: NaN and 0 both fall back.\<close>

definition maxFileSize :: "env \<Rightarrow> int" where
  "maxFileSize E =
     (case env_MAX_FILE_SIZE E of
        None \<Rightarrow> 5 * 1024 * 1024
      | Some n \<Rightarrow> if n = 0 then 5 * 1024 * 1024 else n)"

text \<open>
  The \<open>for\<close> loop over the batch. \<open>continue\<close> goes on with the next file; any throw
  leaves the loop for the handler's \<open>catch\<close>.
\<close>

fun upload_loop ::
  "env \<Rightarrow> nat \<Rightarrow> string \<Rightarrow> upload_file list \<Rightarrow> image_row list \<Rightarrow> registry \<times> database
     \<Rightarrow> (js_error + image_row list) \<times> registry \<times> database" where
  "upload_loop E now mid [] uploadedImages (s, db) = (Inr uploadedImages, s, db)"
| "upload_loop E now mid (file # rest) uploadedImages (s, db) =
     (if \<not> startsWith (f_mimetype file) ''image/'' then
        upload_loop E now mid rest uploadedImages (s, db)
      else if f_size file > maxFileSize E then
        upload_loop E now mid rest uploadedImages (s, db)
      else
        (case uploadFile now file s of
           (Inl error, s') \<Rightarrow> (Inl error, s', db)
         | (Inr uploadResult, s') \<Rightarrow>
             (case count_images db mid of
                Inl error \<Rightarrow> (Inl error, s', db)
              | Inr existing \<Rightarrow>
                  (case insert_image db mid (r_url uploadResult) (r_name uploadResult)
                          (r_size uploadResult) (existing = 0) of
                     Inl error \<Rightarrow> (Inl error, s', db)
                   | Inr (row, db') \<Rightarrow>
                       upload_loop E now mid rest (uploadedImages @ [row]) (s', db')))))"

definition post_motorcycle_images ::
  "env \<Rightarrow> nat \<Rightarrow> images_request \<Rightarrow> registry \<times> database \<Rightarrow> response \<times> registry \<times> database" where
  "post_motorcycle_images E now req st =
     (case files req of
        None \<Rightarrow> (ErrorJson 400 ''No files uploaded'', st)
      | Some entries \<Rightarrow>
          if entries = [] then (ErrorJson 400 ''No files uploaded'', st)
          else
            (case map_of entries ''images'' of
               None \<Rightarrow> (ErrorJson 500 ''Server error'', st)
             | Some field \<Rightarrow>
                 (case upload_loop E now (params_id req)
                         (case field of Several fs \<Rightarrow> fs | Single f \<Rightarrow> [f]) [] st of
                    (Inl error, st') \<Rightarrow> (ErrorJson 500 ''Server error'', st')
                  | (Inr uploadedImages, st') \<Rightarrow> (ImagesJson uploadedImages, st'))))"

section \<open>Histories of the registry\<close>

text \<open>
  The two operations the module exports, applied in sequence to the process state. A
  history records, next to the state, the identifiers that \<open>uploadFile\<close> has returned
  so far. \<open>getFile\<close> only reads.
\<close>

datatype registry_op = Register nat upload_file | Lookup string

fun run :: "registry_op list \<Rightarrow> registry \<times> string list \<Rightarrow> registry \<times> string list" where
  "run [] st = st"
| "run (Register now file # ops) (s, issued) =
     (case uploadFile now file s of
        (Inl error, s') \<Rightarrow> run ops (s', issued)
      | (Inr result, s') \<Rightarrow> run ops (s', issued @ [r_id result]))"
| "run (Lookup fileId # ops) (s, issued) =
     (case getFile s fileId of _ \<Rightarrow> run ops (s, issued))"

section \<open>Example inputs\<close>

text \<open>
  A registry that starts empty over a fixed random tape, and the payload of the
  documented scenario: the three bytes of \<open>abc\<close> declared as \<open>x.jpg\<close>,
  \<open>image/jpeg\<close>, size 3.
\<close>

definition example_tape :: "nat \<Rightarrow> byte" where
  "example_tape i = of_nat (i * 37 + 11)"

definition example_registry :: registry where
  "example_registry = \<lparr>uploads = Map.empty, rng_tape = example_tape, rng_pos = 0\<rparr>"

definition example_file :: upload_file where
  "example_file =
     \<lparr>f_name = ''x.jpg'', f_data = Some [97, 98, 99], f_size = 3,
      f_mimetype = ''image/jpeg''\<rparr>"

text \<open>
  A process with no \<open>JWT_SECRET\<close> and no \<open>MAX_FILE_SIZE\<close> set, a token library
  that knows three token texts, and a password hash that compares equal to the password
  it was made from. \<open>token-admin\<close> is what a login of principal \<open>7f3c\<close> at
  second 1000 produces; \<open>token-forged\<close> has the same claims under another secret;
  \<open>token-early\<close> was issued to the same principal at second 10.
\<close>

definition example_claims :: "nat \<Rightarrow> jwt_claims" where
  "example_claims iat =
     \<lparr>c_userId = Some ''7f3c'', c_type = Some ''admin'', c_iat = Some iat, c_nbf = None,
      c_exp = Some (iat + 86400)\<rparr>"

definition example_tokens :: "(string \<times> jwt) list" where
  "example_tokens =
     [(''token-admin'',
         \<lparr>jwt_payload = example_claims 1000, jwt_key = Some ''mwirutijnr-secret-key-2025''\<rparr>),
      (''token-forged'',
         \<lparr>jwt_payload = example_claims 1000, jwt_key = Some ''some-other-secret''\<rparr>),
      (''token-early'',
         \<lparr>jwt_payload = example_claims 10, jwt_key = Some ''mwirutijnr-secret-key-2025''\<rparr>)]"

definition example_env :: env where
  "example_env =
     \<lparr>env_JWT_SECRET = None, env_MAX_FILE_SIZE = None,
      jwt_encode = (\<lambda>j. case find (\<lambda>entry. snd entry = j) example_tokens of
                           Some entry \<Rightarrow> fst entry | None \<Rightarrow> ''token-unknown''),
      jwt_decode = map_of example_tokens,
      bcrypt_compare = (\<lambda>password hash. hash = ''hash-of-'' @ password)\<rparr>"

definition example_db :: database where
  "example_db =
     \<lparr>connected = True,
      admin_users = [\<lparr>au_id = ''7f3c'', au_username = ''admin'',
                      au_password_hash = ''hash-of-correct-secret''\<rparr>],
      motorcycles = [''m1''],
      motorcycle_images = [],
      uuid_tape = (\<lambda>n. ''image-'' @ replicate n CHR ''i''),
      uuid_pos = 0\<rparr>"

text \<open>
  A batch of three payloads for motorcycle \<open>m1\<close>; the second one carries no buffer.
\<close>

definition example_batch :: images_request where
  "example_batch =
     \<lparr>params_id = ''m1'',
      files = Some [(''images'',
                Several [example_file,
                         example_file\<lparr>f_name := ''broken.jpg'', f_data := None\<rparr>,
                         example_file\<lparr>f_name := ''y.jpg''\<rparr>])]\<rparr>"

section \<open>Properties of the renderings\<close>

lemma unat_byte_lt: "unat (b::byte) < 256"
  using unsigned_less[of b] by simp

lemma byte_of_unat: "(of_nat (unat b) :: byte) = b"
  by simp

lemma of_char_b64_char:
  "n < 64 \<Longrightarrow> (of_char (b64_char n) :: nat) =
     (if n < 26 then 65 + n else if n < 52 then 71 + n else if n < 62 then n - 4
      else if n = 62 then 43 else 47)"
  by (simp add: b64_char_def)

lemma b64_index_code: "b64_index c = Some i \<longleftrightarrow>
   (let k = (of_char c :: nat) in
     (65 \<le> k \<and> k \<le> 90 \<and> i = k - 65) \<or> (97 \<le> k \<and> k \<le> 122 \<and> i = k - 71) \<or>
     (48 \<le> k \<and> k \<le> 57 \<and> i = k + 4) \<or> (k = 43 \<and> i = 62) \<or> (k = 47 \<and> i = 63))"
  unfolding b64_index_def Let_def by (simp; linarith)

lemma b64_index_char: "n < 64 \<Longrightarrow> b64_index (b64_char n) = Some n"
  unfolding b64_index_code Let_def of_char_b64_char
  by (simp add: of_char_b64_char; linarith)

lemma b64_char_not_pad: "n < 64 \<Longrightarrow> b64_char n \<noteq> CHR ''=''"
proof
  assume n: "n < 64" and "b64_char n = CHR ''=''"
  then have "(of_char (b64_char n) :: nat) = of_char (CHR ''='')" by simp
  then show False using n by (simp add: of_char_b64_char split: if_splits)
qed

lemma b64_group4_char:
  "b64_group4 (b64_char (unat a div 4)) (b64_char (unat a mod 4 * 16 + unat b div 16))
     (b64_char (unat b mod 16 * 4 + unat c div 64)) (b64_char (unat c mod 64)) = Some [a, b, c]"
  for a b c :: byte
proof -
  have la: "unat a < 256" and lb: "unat b < 256" and lc: "unat c < 256"
    by (rule unat_byte_lt)+
  have i0: "unat a div 4 < 64" using la by simp
  have i1: "unat a mod 4 * 16 + unat b div 16 < 64" using lb by (simp add: less_Suc_eq_le)
  have i2: "unat b mod 16 * 4 + unat c div 64 < 64" using lc by simp
  have i3: "unat c mod 64 < 64" by simp
  have a: "unat a div 4 * 4 + (unat a mod 4 * 16 + unat b div 16) div 16 = unat a"
    using lb by simp
  have b: "(unat a mod 4 * 16 + unat b div 16) mod 16 * 16
             + (unat b mod 16 * 4 + unat c div 64) div 4 = unat b"
    using lb lc by simp
  have c: "(unat b mod 16 * 4 + unat c div 64) mod 4 * 64 + unat c mod 64 = unat c"
    using lc by simp
  show ?thesis
    unfolding b64_group4_def b64_index_char[OF i0] b64_index_char[OF i1]
      b64_index_char[OF i2] b64_index_char[OF i3] prod.case option.case a b c byte_of_unat
    by (rule refl)
qed

lemma b64_group3_char:
  "b64_group3 (b64_char (unat a div 4)) (b64_char (unat a mod 4 * 16 + unat b div 16))
     (b64_char (unat b mod 16 * 4)) = Some [a, b]"
  for a b :: byte
proof -
  have lb: "unat b < 256" by (rule unat_byte_lt)
  have i0: "unat a div 4 < 64" using unat_byte_lt[of a] by simp
  have i1: "unat a mod 4 * 16 + unat b div 16 < 64" using lb by (simp add: less_Suc_eq_le)
  have i2: "unat b mod 16 * 4 < 64" by simp
  have a: "unat a div 4 * 4 + (unat a mod 4 * 16 + unat b div 16) div 16 = unat a"
    using lb by simp
  have b: "(unat a mod 4 * 16 + unat b div 16) mod 16 * 16 + (unat b mod 16 * 4) div 4 = unat b"
    using lb by simp
  have z: "unat b mod 16 * 4 mod 4 = 0" by simp
  show ?thesis
    unfolding b64_group3_def b64_index_char[OF i0] b64_index_char[OF i1]
      b64_index_char[OF i2] prod.case option.case a b z byte_of_unat
    by simp
qed

lemma b64_group2_char:
  "b64_group2 (b64_char (unat a div 4)) (b64_char (unat a mod 4 * 16)) = Some [a]"
  for a :: byte
proof -
  have i0: "unat a div 4 < 64" using unat_byte_lt[of a] by simp
  have i1: "unat a mod 4 * 16 < 64" by simp
  have a: "unat a div 4 * 4 + (unat a mod 4 * 16) div 16 = unat a" by simp
  have z: "unat a mod 4 * 16 mod 16 = 0" by simp
  show ?thesis
    unfolding b64_group2_def b64_index_char[OF i0] b64_index_char[OF i1]
      prod.case option.case a z byte_of_unat
    by simp
qed

lemma from_to_base64: "from_base64 (to_base64 bs) = Some bs"
proof (induction bs rule: to_base64.induct)
  case (1 a b c rest)
  have "unat c mod 64 < 64" by simp
  then have np: "b64_char (unat c mod 64) \<noteq> CHR ''=''" by (rule b64_char_not_pad)
  show ?case using 1 np by (simp add: b64_group4_char)
next
  case (2 a b)
  have "unat b mod 16 * 4 < 64" by simp
  then have np: "b64_char (unat b mod 16 * 4) \<noteq> CHR ''=''" by (rule b64_char_not_pad)
  show ?case using np by (simp add: b64_group3_char)
next
  case (3 a)
  show ?case by (simp add: b64_group2_char)
next
  case 4
  show ?case by simp
qed

lemma length_hex_alphabet: "length hex_alphabet = 16"
  by (simp add: hex_alphabet_def)

lemma distinct_hex_alphabet: "distinct hex_alphabet"
  by (simp add: hex_alphabet_def)

lemma hex_digit_inj: "m < 16 \<Longrightarrow> n < 16 \<Longrightarrow> hex_digit m = hex_digit n \<Longrightarrow> m = n"
  using distinct_hex_alphabet
  by (simp add: hex_digit_def nth_eq_iff_index_eq length_hex_alphabet)

lemma hex_digit_is_hex: "n < 16 \<Longrightarrow> is_hex_char (hex_digit n)"
  by (simp add: hex_digit_def is_hex_char_def length_hex_alphabet)

lemma hex_byte_inj: "hex_byte a = hex_byte b \<Longrightarrow> a = b"
proof -
  assume e: "hex_byte a = hex_byte b"
  have hi: "unat a div 16 < 16" "unat b div 16 < 16"
    using unat_byte_lt[of a] unat_byte_lt[of b] by simp_all
  have lo: "unat a mod 16 < 16" "unat b mod 16 < 16" by simp_all
  from e have d: "hex_digit (unat a div 16) = hex_digit (unat b div 16)"
    and m: "hex_digit (unat a mod 16) = hex_digit (unat b mod 16)"
    by (simp_all add: hex_byte_def)
  have "unat a div 16 = unat b div 16" by (rule hex_digit_inj[OF hi d])
  moreover have "unat a mod 16 = unat b mod 16" by (rule hex_digit_inj[OF lo m])
  ultimately have "unat a = unat b" by (metis div_mult_mod_eq)
  then show "a = b" by (simp add: word_unat_eq_iff)
qed

lemma length_to_hex: "length (to_hex bs) = 2 * length bs"
  by (induction bs) (simp_all add: to_hex_def hex_byte_def)

lemma to_hex_chars: "list_all is_hex_char (to_hex bs)"
proof (induction bs)
  case Nil
  show ?case by (simp add: to_hex_def)
next
  case (Cons b bs)
  have "unat b div 16 < 16" using unat_byte_lt[of b] by simp
  then have "is_hex_char (hex_digit (unat b div 16))" by (rule hex_digit_is_hex)
  moreover have "is_hex_char (hex_digit (unat b mod 16))" by (simp add: hex_digit_is_hex)
  ultimately show ?case using Cons by (simp add: to_hex_def hex_byte_def)
qed

lemma to_hex_inj: "to_hex xs = to_hex ys \<Longrightarrow> xs = ys"
proof (induction xs arbitrary: ys)
  case Nil
  then show ?case by (cases ys) (simp_all add: to_hex_def hex_byte_def)
next
  case (Cons x xs)
  then obtain y ys' where ys: "ys = y # ys'"
    by (cases ys) (simp_all add: to_hex_def hex_byte_def)
  from Cons.prems ys have "hex_byte x @ to_hex xs = hex_byte y @ to_hex ys'"
    by (simp add: to_hex_def)
  moreover have "length (hex_byte x) = length (hex_byte y)" by (simp add: hex_byte_def)
  ultimately have "hex_byte x = hex_byte y" "to_hex xs = to_hex ys'" by simp_all
  then show ?case using Cons.IH ys by (simp add: hex_byte_inj)
qed

section \<open>The upload registry\<close>

lemma length_randomBytes: "length (fst (randomBytes n s)) = n"
  by (simp add: randomBytes_def)

lemma uploadFile_Some:
  "f_data file = Some buf \<Longrightarrow>
   uploadFile now file s =
     (Inr \<lparr>r_id = to_hex (fst (randomBytes 16 s)),
           r_url = ''data:'' @ f_mimetype file @ '';base64,'' @ to_base64 buf,
           r_name = f_name file, r_size = f_size file\<rparr>,
      s\<lparr>rng_pos := rng_pos s + 16,
        uploads := (uploads s)(to_hex (fst (randomBytes 16 s)) \<mapsto>
          \<lparr>fi_id = to_hex (fst (randomBytes 16 s)), fi_name = f_name file,
           fi_size = f_size file, fi_mimetype = f_mimetype file,
           fi_dataUrl = ''data:'' @ f_mimetype file @ '';base64,'' @ to_base64 buf,
           fi_createdAt = now\<rparr>)\<rparr>)"
  by (simp add: uploadFile_def randomBytes_def Let_def)

lemma uploadFile_None:
  "f_data file = None \<Longrightarrow>
   uploadFile now file s = (Inl (Error ''File upload failed''), s\<lparr>rng_pos := rng_pos s + 16\<rparr>)"
  by (simp add: uploadFile_def randomBytes_def Let_def)

text \<open>
  C7. Whenever \<open>uploadFile\<close> accepts a payload, the identifier it returns is the
  rendering of the 16 bytes (128 bits) it drew from the random source: exactly 32
  characters long, all of them hexadecimal digits; the URL it returns starts with
  \<open>data:\<close>, the declared media type and \<open>;base64,\<close>, and what follows decodes
  from base64 to exactly the payload's bytes; the record stored under the identifier
  carries the same identifier and URL.
\<close>

theorem uploadFile_record:
  assumes ok: "fst (uploadFile now file s) = Inr r"
  shows "r_id r = to_hex (fst (randomBytes 16 s)) \<and>
         length (fst (randomBytes 16 s)) = 16 \<and>
         length (r_id r) = 32 \<and> list_all is_hex_char (r_id r) \<and>
         take (length (''data:'' @ f_mimetype file @ '';base64,'')) (r_url r)
           = ''data:'' @ f_mimetype file @ '';base64,'' \<and>
         f_data file \<noteq> None \<and>
         from_base64 (drop (length (''data:'' @ f_mimetype file @ '';base64,'')) (r_url r))
           = f_data file \<and>
         getFile (snd (uploadFile now file s)) (r_id r) =
           Some \<lparr>fi_id = r_id r, fi_name = f_name file, fi_size = f_size file,
                 fi_mimetype = f_mimetype file, fi_dataUrl = r_url r, fi_createdAt = now\<rparr>"
proof (cases "f_data file")
  case None
  with ok show ?thesis by (simp add: uploadFile_None)
next
  case (Some buf)
  from ok have r: "r = \<lparr>r_id = to_hex (fst (randomBytes 16 s)),
           r_url = ''data:'' @ f_mimetype file @ '';base64,'' @ to_base64 buf,
           r_name = f_name file, r_size = f_size file\<rparr>"
    by (simp add: uploadFile_Some[OF Some])
  have len: "length (r_id r) = 32"
    by (simp add: r length_to_hex length_randomBytes)
  have hex: "list_all is_hex_char (r_id r)"
    by (simp add: r to_hex_chars)
  have pre: "take (length (''data:'' @ f_mimetype file @ '';base64,'')) (r_url r)
           = ''data:'' @ f_mimetype file @ '';base64,''"
    by (simp add: r)
  have dec: "from_base64 (drop (length (''data:'' @ f_mimetype file @ '';base64,'')) (r_url r))
           = f_data file"
    by (simp add: r Some from_to_base64)
  have get: "getFile (snd (uploadFile now file s)) (r_id r) =
           Some \<lparr>fi_id = r_id r, fi_name = f_name file, fi_size = f_size file,
                 fi_mimetype = f_mimetype file, fi_dataUrl = r_url r, fi_createdAt = now\<rparr>"
    by (simp add: uploadFile_Some[OF Some] getFile_def r)
  have draw: "r_id r = to_hex (fst (randomBytes 16 s))" by (simp add: r)
  from draw len hex pre dec get Some show ?thesis by (simp add: length_randomBytes)
qed

lemma example_upload:
  "fst (uploadFile 5 example_file example_registry) =
     Inr \<lparr>r_id = ''0b30557a9fc4e90e33587da2c7ec1136'',
          r_url = ''data:image/jpeg;base64,YWJj'', r_name = ''x.jpg'', r_size = 3\<rparr>"
  by code_simp

theorem uploadFile_record_witness:
  "fst (uploadFile 5 example_file example_registry) =
     Inr \<lparr>r_id = ''0b30557a9fc4e90e33587da2c7ec1136'',
          r_url = ''data:image/jpeg;base64,YWJj'', r_name = ''x.jpg'', r_size = 3\<rparr> \<and>
   to_hex (fst (randomBytes 16 example_registry)) = ''0b30557a9fc4e90e33587da2c7ec1136'' \<and>
   length ''0b30557a9fc4e90e33587da2c7ec1136'' = 32 \<and>
   list_all is_hex_char ''0b30557a9fc4e90e33587da2c7ec1136'' \<and>
   from_base64 (drop (length ''data:image/jpeg;base64,'') ''data:image/jpeg;base64,YWJj'')
     = Some [97, 98, 99] \<and>
   getFile (snd (uploadFile 5 example_file example_registry))
       ''0b30557a9fc4e90e33587da2c7ec1136'' =
     Some \<lparr>fi_id = ''0b30557a9fc4e90e33587da2c7ec1136'', fi_name = ''x.jpg'', fi_size = 3,
           fi_mimetype = ''image/jpeg'', fi_dataUrl = ''data:image/jpeg;base64,YWJj'',
           fi_createdAt = 5\<rparr>"
proof -
  note inst = uploadFile_record[OF example_upload]
  have drawn: "to_hex (fst (randomBytes 16 example_registry))
                 = ''0b30557a9fc4e90e33587da2c7ec1136''"
    using conjunct1[OF inst] by simp
  show ?thesis
    using example_upload inst by (simp add: drawn example_file_def)
qed


text \<open>
  C8. Two calls of \<open>uploadFile\<close> with the same payload, one after the other, for
  which the random source gives two different draws, return two different identifiers,
  and afterwards the registry holds a record of its own under each of them (the first
  one is not replaced by the second).
\<close>

theorem uploadFile_twice:
  assumes first: "fst (uploadFile t1 file s) = Inr r1"
    and second: "fst (uploadFile t2 file (snd (uploadFile t1 file s))) = Inr r2"
    and fresh: "fst (randomBytes 16 s) \<noteq> fst (randomBytes 16 (snd (uploadFile t1 file s)))"
  shows "r_id r1 \<noteq> r_id r2 \<and>
         getFile (snd (uploadFile t2 file (snd (uploadFile t1 file s)))) (r_id r1) =
           Some \<lparr>fi_id = r_id r1, fi_name = f_name file, fi_size = f_size file,
                 fi_mimetype = f_mimetype file, fi_dataUrl = r_url r1, fi_createdAt = t1\<rparr> \<and>
         getFile (snd (uploadFile t2 file (snd (uploadFile t1 file s)))) (r_id r2) =
           Some \<lparr>fi_id = r_id r2, fi_name = f_name file, fi_size = f_size file,
                 fi_mimetype = f_mimetype file, fi_dataUrl = r_url r2, fi_createdAt = t2\<rparr>"
proof (cases "f_data file")
  case None
  with first show ?thesis by (simp add: uploadFile_None)
next
  case (Some buf)
  define s1 where "s1 = snd (uploadFile t1 file s)"
  have r1: "r_id r1 = to_hex (fst (randomBytes 16 s))"
    and u1: "r_url r1 = ''data:'' @ f_mimetype file @ '';base64,'' @ to_base64 buf"
    using first by (auto simp: uploadFile_Some[OF Some])
  have r2: "r_id r2 = to_hex (fst (randomBytes 16 s1))"
    and u2: "r_url r2 = ''data:'' @ f_mimetype file @ '';base64,'' @ to_base64 buf"
    using second by (auto simp: uploadFile_Some[OF Some] s1_def)
  have ne: "r_id r1 \<noteq> r_id r2"
    using fresh to_hex_inj unfolding r1 r2 s1_def by blast
  have g1: "getFile s1 (r_id r1) =
           Some \<lparr>fi_id = r_id r1, fi_name = f_name file, fi_size = f_size file,
                 fi_mimetype = f_mimetype file, fi_dataUrl = r_url r1, fi_createdAt = t1\<rparr>"
    by (simp add: s1_def uploadFile_Some[OF Some] getFile_def r1 u1)
  have keep: "getFile (snd (uploadFile t2 file s1)) k = getFile s1 k" if "k \<noteq> r_id r2" for k
    using that by (simp add: uploadFile_Some[OF Some] getFile_def r2)
  have g2: "getFile (snd (uploadFile t2 file s1)) (r_id r2) =
           Some \<lparr>fi_id = r_id r2, fi_name = f_name file, fi_size = f_size file,
                 fi_mimetype = f_mimetype file, fi_dataUrl = r_url r2, fi_createdAt = t2\<rparr>"
    by (simp add: uploadFile_Some[OF Some] getFile_def r2 u2)
  from ne g1 keep[OF ne] g2 show ?thesis by (simp add: s1_def)
qed

lemma example_upload_again:
  "fst (uploadFile 9 example_file (snd (uploadFile 5 example_file example_registry))) =
     Inr \<lparr>r_id = ''5b80a5caef14395e83a8cdf2173c6186'',
          r_url = ''data:image/jpeg;base64,YWJj'', r_name = ''x.jpg'', r_size = 3\<rparr>"
  by code_simp

lemma example_draws_differ:
  "fst (randomBytes 16 example_registry)
     \<noteq> fst (randomBytes 16 (snd (uploadFile 5 example_file example_registry)))"
  by code_simp

theorem uploadFile_twice_witness:
  "fst (uploadFile 5 example_file example_registry) =
     Inr \<lparr>r_id = ''0b30557a9fc4e90e33587da2c7ec1136'',
          r_url = ''data:image/jpeg;base64,YWJj'', r_name = ''x.jpg'', r_size = 3\<rparr> \<and>
   fst (uploadFile 9 example_file (snd (uploadFile 5 example_file example_registry))) =
     Inr \<lparr>r_id = ''5b80a5caef14395e83a8cdf2173c6186'',
          r_url = ''data:image/jpeg;base64,YWJj'', r_name = ''x.jpg'', r_size = 3\<rparr> \<and>
   fst (randomBytes 16 example_registry)
     \<noteq> fst (randomBytes 16 (snd (uploadFile 5 example_file example_registry))) \<and>
   ''0b30557a9fc4e90e33587da2c7ec1136'' \<noteq> ''5b80a5caef14395e83a8cdf2173c6186'' \<and>
   getFile (snd (uploadFile 9 example_file (snd (uploadFile 5 example_file example_registry))))
       ''0b30557a9fc4e90e33587da2c7ec1136'' =
     Some \<lparr>fi_id = ''0b30557a9fc4e90e33587da2c7ec1136'', fi_name = ''x.jpg'', fi_size = 3,
           fi_mimetype = ''image/jpeg'', fi_dataUrl = ''data:image/jpeg;base64,YWJj'',
           fi_createdAt = 5\<rparr> \<and>
   getFile (snd (uploadFile 9 example_file (snd (uploadFile 5 example_file example_registry))))
       ''5b80a5caef14395e83a8cdf2173c6186'' =
     Some \<lparr>fi_id = ''5b80a5caef14395e83a8cdf2173c6186'', fi_name = ''x.jpg'', fi_size = 3,
           fi_mimetype = ''image/jpeg'', fi_dataUrl = ''data:image/jpeg;base64,YWJj'',
           fi_createdAt = 9\<rparr>"
  using example_upload example_upload_again example_draws_differ
    uploadFile_twice[OF example_upload example_upload_again example_draws_differ]
  by (simp add: example_file_def)

lemma dom_uploadFile:
  "dom (uploads (snd (uploadFile now file s))) =
     (case fst (uploadFile now file s) of
        Inl e \<Rightarrow> dom (uploads s)
      | Inr r \<Rightarrow> insert (r_id r) (dom (uploads s)))"
  by (cases "f_data file") (simp_all add: uploadFile_None uploadFile_Some)

lemma run_keys:
  "dom (uploads s) = set issued \<Longrightarrow> run ops (s, issued) = (s', issued')
     \<Longrightarrow> dom (uploads s') = set issued'"
proof (induction ops arbitrary: s issued)
  case Nil
  then show ?case by simp
next
  case (Cons op ops)
  show ?case
  proof (cases op)
    case (Register now f)
    obtain res s1 where u: "uploadFile now f s = (res, s1)" by (cases "uploadFile now f s")
    show ?thesis
    proof (cases res)
      case (Inl e)
      have "dom (uploads s1) = set issued"
        using dom_uploadFile[of now f s] u Inl Cons.prems(1) by simp
      moreover have "run ops (s1, issued) = (s', issued')"
        using Cons.prems(2) Register u Inl by simp
      ultimately show ?thesis by (rule Cons.IH)
    next
      case (Inr r)
      have "dom (uploads s1) = set (issued @ [r_id r])"
        using dom_uploadFile[of now f s] u Inr Cons.prems(1) by simp
      moreover have "run ops (s1, issued @ [r_id r]) = (s', issued')"
        using Cons.prems(2) Register u Inr by simp
      ultimately show ?thesis by (rule Cons.IH)
    qed
  next
    case (Lookup fileId)
    with Cons.prems(2) have "run ops (s, issued) = (s', issued')" by simp
    with Cons.prems(1) show ?thesis by (rule Cons.IH)
  qed
qed

text \<open>
  C9. The keys of \<open>uploads\<close> are exactly the identifiers \<open>uploadFile\<close> has
  returned: this holds at the start (empty map, nothing issued) and is kept by every
  sequence of \<open>uploadFile\<close> and \<open>getFile\<close> calls, so \<open>getFile\<close> on an
  identifier that was never issued finds nothing.
\<close>

theorem registry_keys_are_issued:
  assumes "dom (uploads s) = set issued"
  shows "dom (uploads (fst (run ops (s, issued)))) = set (snd (run ops (s, issued))) \<and>
         (\<forall>fileId. fileId \<notin> set (snd (run ops (s, issued)))
            \<longrightarrow> getFile (fst (run ops (s, issued))) fileId = None)"
proof -
  have "run ops (s, issued) = (fst (run ops (s, issued)), snd (run ops (s, issued)))"
    by simp
  with assms have "dom (uploads (fst (run ops (s, issued)))) = set (snd (run ops (s, issued)))"
    by (rule run_keys)
  then show ?thesis by (auto simp: getFile_def)
qed

lemma example_history:
  "snd (run [Register 5 example_file, Lookup ''0000'',
             Register 6 (example_file\<lparr>f_data := None\<rparr>), Register 7 example_file]
          (example_registry, [])) =
     [''0b30557a9fc4e90e33587da2c7ec1136'', ''abd0f51a3f6489aed3f81d42678cb1d6'']"
  by code_simp

theorem registry_keys_are_issued_witness:
  "dom (uploads example_registry) = set [] \<and>
   dom (uploads (fst (run [Register 5 example_file, Lookup ''0000'',
             Register 6 (example_file\<lparr>f_data := None\<rparr>), Register 7 example_file]
          (example_registry, [])))) =
     {''0b30557a9fc4e90e33587da2c7ec1136'', ''abd0f51a3f6489aed3f81d42678cb1d6''} \<and>
   getFile (fst (run [Register 5 example_file, Lookup ''0000'',
             Register 6 (example_file\<lparr>f_data := None\<rparr>), Register 7 example_file]
          (example_registry, []))) ''0000'' = None"
proof -
  have start: "dom (uploads example_registry) = set []"
    by (simp add: example_registry_def)
  show ?thesis
    using start
      registry_keys_are_issued[OF start, of "[Register 5 example_file, Lookup ''0000'',
             Register 6 (example_file\<lparr>f_data := None\<rparr>), Register 7 example_file]"]
    unfolding example_history by simp
qed


section \<open>Tokens and credentials\<close>

lemma expired_iff: "e * 1000 \<le> now \<longleftrightarrow> e \<le> now div (1000::nat)"
  by (simp add: less_eq_div_iff_mult_less_eq)

lemma jwt_verify_wrong_key:
  "jwt_decode E token = Some j \<Longrightarrow> jwt_key j \<noteq> Some secret
     \<Longrightarrow> jwt_verify E now token secret = Inl (Error ''invalid signature'')"
  by (simp add: jwt_verify_def)

lemma jwt_verify_expired:
  "jwt_decode E token = Some j \<Longrightarrow> c_exp (jwt_payload j) = Some e \<Longrightarrow> e \<le> now div 1000
     \<Longrightarrow> \<exists>err. jwt_verify E now token secret = Inl err"
  by (simp add: jwt_verify_def split: option.splits)

lemma jwt_verify_accepts:
  "jwt_decode E token = Some j \<Longrightarrow> jwt_key j = Some secret
     \<Longrightarrow> (case c_nbf (jwt_payload j) of None \<Rightarrow> True | Some n \<Rightarrow> n \<le> now div 1000)
     \<Longrightarrow> (case c_exp (jwt_payload j) of None \<Rightarrow> True | Some e \<Rightarrow> now div 1000 < e)
     \<Longrightarrow> jwt_verify E now token secret = Inr (jwt_payload j)"
  by (auto simp: jwt_verify_def split: option.splits)

lemma jwt_verify_payload:
  "jwt_verify E now token secret = Inr d \<Longrightarrow> \<exists>j. jwt_decode E token = Some j \<and> d = jwt_payload j"
  by (auto simp: jwt_verify_def split: option.splits if_splits)

lemma select_admin_id_absent:
  "uid \<notin> au_id ` set (admin_users db) \<Longrightarrow> connected db \<Longrightarrow> select_admin_id db (Some uid) = Inr []"
  by (auto simp: select_admin_id_def filter_empty_conv)

text \<open>
  C4. A token whose expiry instant has been reached, and a token whose signature was
  made with a secret other than the service's \<open>JWT_SECRET\<close>, are both refused by
  \<open>verifyAdminToken\<close>, whatever their other claims and whatever the store holds: the
  result is \<open>{valid: false}\<close>, never a success.
\<close>

theorem verifyAdminToken_rejects_expired_or_foreign:
  assumes "jwt_decode E token = Some j"
    and "(\<exists>e. c_exp (jwt_payload j) = Some e \<and> e * 1000 \<le> now)
           \<or> jwt_key j \<noteq> Some (JWT_SECRET E)"
  shows "verifyAdminToken E db now token = \<lparr>v_valid = False, v_userId = None\<rparr>"
proof -
  have "\<exists>err. jwt_verify E now token (JWT_SECRET E) = Inl err"
    using assms jwt_verify_wrong_key[of E token j "JWT_SECRET E" now]
      jwt_verify_expired[of E token j _ now "JWT_SECRET E"]
    by (auto simp: expired_iff)
  then have "verifyToken E now token = None"
    by (auto simp: verifyToken_def)
  then show ?thesis by (simp add: verifyAdminToken_def)
qed

text \<open>
  C5. Once the store has no row for the principal a token names, \<open>verifyAdminToken\<close>
  answers \<open>valid: false\<close> for that token on every call, at any time, however good its
  signature, discriminator and expiry are.
\<close>

theorem verifyAdminToken_deleted_principal:
  assumes "jwt_decode E token = Some j"
    and "c_userId (jwt_payload j) = Some uid"
    and "uid \<notin> au_id ` set (admin_users db)"
  shows "v_valid (verifyAdminToken E db now token) = False"
proof (cases "verifyToken E now token")
  case None
  then show ?thesis by (simp add: verifyAdminToken_def)
next
  case (Some d)
  then have "jwt_verify E now token (JWT_SECRET E) = Inr d"
    by (simp add: verifyToken_def split: sum.splits)
  then have d: "d = jwt_payload j"
    using jwt_verify_payload assms(1) by fastforce
  show ?thesis
  proof (cases "connected db")
    case True
    then have "select_admin_id db (c_userId d) = Inr []"
      using select_admin_id_absent[OF assms(3)] d assms(2) by simp
    then show ?thesis using Some by (simp add: verifyAdminToken_def)
  next
    case False
    then show ?thesis using Some by (simp add: verifyAdminToken_def select_admin_id_def)
  qed
qed


text \<open>
  C6. A login that fails because the username has no row and a login that fails because
  the password does not match the stored hash return the same value,
  \<open>{success: false, error: 'Invalid credentials'}\<close>, whatever the other inputs are.
\<close>

theorem adminLogin_same_error:
  assumes "select_admin_by_username db1 username1 = Inr []"
    and "select_admin_by_username db2 username2 = Inr (user # others)"
    and "\<not> bcrypt_compare E2 password2 (au_password_hash user)"
  shows "adminLogin E1 db1 now1 username1 password1 =
           \<lparr>l_success = False, l_error = Some ''Invalid credentials'', l_token = None,
            l_expiry = None\<rparr> \<and>
         adminLogin E2 db2 now2 username2 password2 =
           adminLogin E1 db1 now1 username1 password1"
  using assms by (simp add: adminLogin_def)

text \<open>
  C3, as amended. When the store has a row for the username, the password matches its
  hash and the instant 24 hours ahead of the clock is still one a \<open>Date\<close> can hold
  (at most 8640000000000000 milliseconds), \<open>adminLogin\<close> succeeds with the signed
  token and that instant. Given that the token library reads back what it has signed,
  \<open>verifyAdminToken\<close> on that token resolves to the principal's identifier on every
  call made while the store still answers with the principal's row and the clock, in
  whole seconds, is less than 86400 seconds past the second of issuance.
\<close>

theorem login_then_verify:
  assumes found: "select_admin_by_username db username = Inr (user # others)"
    and secret: "bcrypt_compare E password (au_password_hash user)"
    and issued: "j = \<lparr>jwt_payload = \<lparr>c_userId = Some (au_id user), c_type = Some ''admin'',
                                      c_iat = Some (now div 1000), c_nbf = None,
                                      c_exp = Some (now div 1000 + 86400)\<rparr>,
                         jwt_key = Some (JWT_SECRET E)\<rparr>"
    and codec: "jwt_decode E (jwt_encode E j) = Some j"
    and exists: "select_admin_id db' (Some (au_id user)) = Inr (i # ids)"
    and fresh: "now' div 1000 < now div 1000 + 86400"
    and clock: "now + 86400000 \<le> 8640000000000000"
  shows "adminLogin E db now username password =
           \<lparr>l_success = True, l_error = None, l_token = Some (jwt_encode E j),
            l_expiry = Some (now + 86400000)\<rparr> \<and>
         verifyAdminToken E db' now' (jwt_encode E j) =
           \<lparr>v_valid = True, v_userId = Some (au_id user)\<rparr>"
proof -
  have tok: "generateToken E now (au_id user) = jwt_encode E j"
    by (simp add: generateToken_def jwt_sign_def issued)
  have login: "adminLogin E db now username password =
           \<lparr>l_success = True, l_error = None, l_token = Some (jwt_encode E j),
            l_expiry = Some (now + 86400000)\<rparr>"
    using found secret clock by (simp add: adminLogin_def tok)
  have "jwt_verify E now' (jwt_encode E j) (JWT_SECRET E) = Inr (jwt_payload j)"
    using fresh by (intro jwt_verify_accepts[OF codec]) (simp_all add: issued)
  then have "verifyToken E now' (jwt_encode E j) = Some (jwt_payload j)"
    by (simp add: verifyToken_def)
  then have "verifyAdminToken E db' now' (jwt_encode E j) =
           \<lparr>v_valid = True, v_userId = Some (au_id user)\<rparr>"
    using exists by (simp add: verifyAdminToken_def issued)
  with login show ?thesis by simp
qed


section \<open>The examples, evaluated\<close>

lemma example_secret: "JWT_SECRET example_env = ''mwirutijnr-secret-key-2025''"
  by (simp add: JWT_SECRET_def example_env_def)

lemma example_decode_admin:
  "jwt_decode example_env ''token-admin'' =
     Some \<lparr>jwt_payload = example_claims 1000, jwt_key = Some ''mwirutijnr-secret-key-2025''\<rparr>"
  by (simp add: example_env_def example_tokens_def)

lemma example_decode_forged:
  "jwt_decode example_env ''token-forged'' =
     Some \<lparr>jwt_payload = example_claims 1000, jwt_key = Some ''some-other-secret''\<rparr>"
  by (simp add: example_env_def example_tokens_def)

lemma example_decode_early:
  "jwt_decode example_env ''token-early'' =
     Some \<lparr>jwt_payload = example_claims 10, jwt_key = Some ''mwirutijnr-secret-key-2025''\<rparr>"
  by (simp add: example_env_def example_tokens_def)

lemma example_encode_admin:
  "jwt_encode example_env
     \<lparr>jwt_payload = example_claims 1000, jwt_key = Some ''mwirutijnr-secret-key-2025''\<rparr>
   = ''token-admin''"
  by (simp add: example_env_def example_tokens_def)

lemma example_select_admin:
  "select_admin_by_username example_db ''admin'' =
     Inr [\<lparr>au_id = ''7f3c'', au_username = ''admin'',
           au_password_hash = ''hash-of-correct-secret''\<rparr>]"
  by (simp add: select_admin_by_username_def example_db_def)

lemma example_select_nobody: "select_admin_by_username example_db ''nobody'' = Inr []"
  by (simp add: select_admin_by_username_def example_db_def)

lemma example_select_id: "select_admin_id example_db (Some ''7f3c'') = Inr [''7f3c'']"
  by (simp add: select_admin_id_def example_db_def)

lemma example_select_id_deleted:
  "select_admin_id (example_db\<lparr>admin_users := []\<rparr>) (Some ''7f3c'') = Inr []"
  by (simp add: select_admin_id_def example_db_def)

theorem verifyAdminToken_rejects_expired_or_foreign_witness:
  "jwt_decode example_env ''token-early'' =
     Some \<lparr>jwt_payload = example_claims 10, jwt_key = Some ''mwirutijnr-secret-key-2025''\<rparr> \<and>
   c_exp (example_claims 10) = Some 86410 \<and> (86410::nat) * 1000 \<le> 86410000 \<and>
   verifyAdminToken example_env example_db 86410000 ''token-early''
     = \<lparr>v_valid = False, v_userId = None\<rparr> \<and>
   jwt_decode example_env ''token-forged'' =
     Some \<lparr>jwt_payload = example_claims 1000, jwt_key = Some ''some-other-secret''\<rparr> \<and>
   Some ''some-other-secret'' \<noteq> Some (JWT_SECRET example_env) \<and>
   verifyAdminToken example_env example_db 1000000 ''token-forged''
     = \<lparr>v_valid = False, v_userId = None\<rparr>"
proof -
  have e: "c_exp (example_claims 10) = Some 86410" by (simp add: example_claims_def)
  have k: "Some ''some-other-secret'' \<noteq> Some (JWT_SECRET example_env)"
    by (simp add: example_secret)
  have "verifyAdminToken example_env example_db 86410000 ''token-early''
     = \<lparr>v_valid = False, v_userId = None\<rparr>"
    by (rule verifyAdminToken_rejects_expired_or_foreign[OF example_decode_early])
       (simp add: e)
  moreover have "verifyAdminToken example_env example_db 1000000 ''token-forged''
     = \<lparr>v_valid = False, v_userId = None\<rparr>"
    by (rule verifyAdminToken_rejects_expired_or_foreign[OF example_decode_forged])
       (simp add: example_secret)
  ultimately show ?thesis using e k example_decode_early example_decode_forged by simp
qed

theorem verifyAdminToken_deleted_principal_witness:
  "verifyAdminToken example_env example_db 1000000 ''token-admin''
     = \<lparr>v_valid = True, v_userId = Some ''7f3c''\<rparr> \<and>
   jwt_decode example_env ''token-admin'' =
     Some \<lparr>jwt_payload = example_claims 1000, jwt_key = Some ''mwirutijnr-secret-key-2025''\<rparr> \<and>
   c_userId (example_claims 1000) = Some ''7f3c'' \<and>
   ''7f3c'' \<notin> au_id ` set (admin_users (example_db\<lparr>admin_users := []\<rparr>)) \<and>
   v_valid (verifyAdminToken example_env (example_db\<lparr>admin_users := []\<rparr>) 1000000
              ''token-admin'') = False"
proof -
  have before: "verifyAdminToken example_env example_db 1000000 ''token-admin''
     = \<lparr>v_valid = True, v_userId = Some ''7f3c''\<rparr>"
    by (simp add: verifyAdminToken_def verifyToken_def jwt_verify_def example_decode_admin
        example_secret example_claims_def example_select_id)
  have u: "c_userId (jwt_payload \<lparr>jwt_payload = example_claims 1000,
              jwt_key = Some ''mwirutijnr-secret-key-2025''\<rparr>) = Some ''7f3c''"
    by (simp add: example_claims_def)
  have d: "''7f3c'' \<notin> au_id ` set (admin_users (example_db\<lparr>admin_users := []\<rparr>))"
    by simp
  show ?thesis
    using before u d example_decode_admin
      verifyAdminToken_deleted_principal[OF example_decode_admin u d, of 1000000]
    by simp
qed


theorem adminLogin_same_error_witness:
  "select_admin_by_username example_db ''nobody'' = Inr [] \<and>
   select_admin_by_username example_db ''admin'' =
     Inr [\<lparr>au_id = ''7f3c'', au_username = ''admin'',
           au_password_hash = ''hash-of-correct-secret''\<rparr>] \<and>
   \<not> bcrypt_compare example_env ''wrong-secret'' ''hash-of-correct-secret'' \<and>
   adminLogin example_env example_db 1000000 ''nobody'' ''correct-secret'' =
     \<lparr>l_success = False, l_error = Some ''Invalid credentials'', l_token = None,
      l_expiry = None\<rparr> \<and>
   adminLogin example_env example_db 2000000 ''admin'' ''wrong-secret'' =
     adminLogin example_env example_db 1000000 ''nobody'' ''correct-secret''"
proof -
  have w: "\<not> bcrypt_compare example_env ''wrong-secret''
             (au_password_hash \<lparr>au_id = ''7f3c'', au_username = ''admin'',
                au_password_hash = ''hash-of-correct-secret''\<rparr>)"
    by (simp add: example_env_def)
  show ?thesis
    using example_select_nobody example_select_admin w
      adminLogin_same_error[OF example_select_nobody example_select_admin w,
        of example_env 1000000 "''correct-secret''" 2000000]
    by simp
qed

text \<open>
  At a clock less than 24 hours before the last instant a \<open>Date\<close> can hold, the
  same login is answered with \<open>Server error\<close>.
\<close>

lemma example_login_late_clock:
  "adminLogin example_env example_db 8639999913600001 ''admin'' ''correct-secret'' =
     \<lparr>l_success = False, l_error = Some ''Server error'', l_token = None, l_expiry = None\<rparr>"
  by (simp add: adminLogin_def example_select_admin example_env_def)

text \<open>
  C3 as stated does not hold: the principal \<open>7f3c\<close> logs in at millisecond 1000000
  and is still in the store, yet exactly 24 hours later \<open>verifyAdminToken\<close> refuses
  the token that login returned.
\<close>

theorem login_then_verify_counterexample:
  "select_admin_by_username example_db ''admin'' =
     Inr [\<lparr>au_id = ''7f3c'', au_username = ''admin'',
           au_password_hash = ''hash-of-correct-secret''\<rparr>] \<and>
   bcrypt_compare example_env ''correct-secret'' ''hash-of-correct-secret'' \<and>
   adminLogin example_env example_db 1000000 ''admin'' ''correct-secret'' =
     \<lparr>l_success = True, l_error = None, l_token = Some ''token-admin'',
      l_expiry = Some 87400000\<rparr> \<and>
   select_admin_id example_db (Some ''7f3c'') = Inr [''7f3c''] \<and>
   verifyAdminToken example_env example_db 87400000 ''token-admin''
     = \<lparr>v_valid = False, v_userId = None\<rparr>"
proof -
  have b: "bcrypt_compare example_env ''correct-secret'' ''hash-of-correct-secret''"
    by (simp add: example_env_def)
  have t: "generateToken example_env 1000000 ''7f3c'' = ''token-admin''"
    using example_encode_admin
    by (simp add: generateToken_def jwt_sign_def example_secret example_claims_def)
  have login: "adminLogin example_env example_db 1000000 ''admin'' ''correct-secret'' =
     \<lparr>l_success = True, l_error = None, l_token = Some ''token-admin'',
      l_expiry = Some 87400000\<rparr>"
    by (simp add: adminLogin_def example_select_admin b t)
  have late: "verifyAdminToken example_env example_db 87400000 ''token-admin''
     = \<lparr>v_valid = False, v_userId = None\<rparr>"
    by (simp add: verifyAdminToken_def verifyToken_def jwt_verify_def example_decode_admin
        example_secret example_claims_def)
  from example_select_admin b login example_select_id late show ?thesis by simp
qed

theorem login_then_verify_witness:
  "select_admin_by_username example_db ''admin'' =
     Inr [\<lparr>au_id = ''7f3c'', au_username = ''admin'',
           au_password_hash = ''hash-of-correct-secret''\<rparr>] \<and>
   bcrypt_compare example_env ''correct-secret'' ''hash-of-correct-secret'' \<and>
   jwt_decode example_env ''token-admin'' =
     Some \<lparr>jwt_payload = example_claims 1000, jwt_key = Some ''mwirutijnr-secret-key-2025''\<rparr> \<and>
   jwt_encode example_env
     \<lparr>jwt_payload = example_claims 1000, jwt_key = Some ''mwirutijnr-secret-key-2025''\<rparr>
     = ''token-admin'' \<and>
   select_admin_id example_db (Some ''7f3c'') = Inr [''7f3c''] \<and>
   (87399999::nat) div 1000 < 1000000 div 1000 + 86400 \<and>
   (1000000::nat) + 86400000 \<le> 8640000000000000 \<and>
   adminLogin example_env example_db 1000000 ''admin'' ''correct-secret'' =
     \<lparr>l_success = True, l_error = None, l_token = Some ''token-admin'',
      l_expiry = Some 87400000\<rparr> \<and>
   verifyAdminToken example_env example_db 87399999 ''token-admin''
     = \<lparr>v_valid = True, v_userId = Some ''7f3c''\<rparr>"
proof -
  define user where "user = \<lparr>au_id = ''7f3c'', au_username = ''admin'',
           au_password_hash = ''hash-of-correct-secret''\<rparr>"
  define j where "j = \<lparr>jwt_payload = example_claims 1000,
                        jwt_key = Some ''mwirutijnr-secret-key-2025''\<rparr>"
  have found: "select_admin_by_username example_db ''admin'' = Inr (user # [])"
    by (simp add: example_select_admin user_def)
  have b: "bcrypt_compare example_env ''correct-secret'' (au_password_hash user)"
    by (simp add: example_env_def user_def)
  have issued: "j = \<lparr>jwt_payload = \<lparr>c_userId = Some (au_id user), c_type = Some ''admin'',
                                      c_iat = Some (1000000 div 1000), c_nbf = None,
                                      c_exp = Some (1000000 div 1000 + 86400)\<rparr>,
                         jwt_key = Some (JWT_SECRET example_env)\<rparr>"
    by (simp add: j_def example_claims_def user_def example_secret)
  have enc: "jwt_encode example_env j = ''token-admin''"
    unfolding j_def by (rule example_encode_admin)
  have codec: "jwt_decode example_env (jwt_encode example_env j) = Some j"
    unfolding enc unfolding j_def by (rule example_decode_admin)
  have exists: "select_admin_id example_db (Some (au_id user)) = Inr (''7f3c'' # [])"
    by (simp add: user_def example_select_id)
  have fresh: "(87399999::nat) div 1000 < 1000000 div 1000 + 86400" by simp
  have clock: "(1000000::nat) + 86400000 \<le> 8640000000000000" by simp
  have b': "bcrypt_compare example_env ''correct-secret'' ''hash-of-correct-secret''"
    using b by (simp add: user_def)
  have "adminLogin example_env example_db 1000000 ''admin'' ''correct-secret'' =
     \<lparr>l_success = True, l_error = None, l_token = Some ''token-admin'',
      l_expiry = Some 87400000\<rparr> \<and>
   verifyAdminToken example_env example_db 87399999 ''token-admin''
     = \<lparr>v_valid = True, v_userId = Some ''7f3c''\<rparr>"
    using login_then_verify[OF found b issued codec exists fresh clock]
    unfolding enc by (simp add: user_def)
  then show ?thesis
    using example_select_admin b' example_decode_admin example_encode_admin example_select_id
    by simp
qed

text \<open>
  C1. \<open>authMiddleware\<close> does not consult the store. For the token of principal
  \<open>7f3c\<close>, well signed and unexpired, after the principal's row is gone:
  \<open>verifyAdminToken\<close> answers \<open>valid: false\<close>, while the middleware, given
  \<open>Bearer token-admin\<close>, sets \<open>req.userId\<close> and calls \<open>next()\<close>.
\<close>

theorem authMiddleware_admits_deleted_principal:
  "verifyAdminToken example_env (example_db\<lparr>admin_users := []\<rparr>) 1000000 ''token-admin''
     = \<lparr>v_valid = False, v_userId = Some ''7f3c''\<rparr> \<and>
   authMiddleware example_env 1000000 \<lparr>authorization = Some ''Bearer token-admin''\<rparr>
     = Next (Some ''7f3c'')"
proof -
  have "split CHR '' '' ''Bearer token-admin'' = [''Bearer'', ''token-admin'']" by simp
  then have "authMiddleware example_env 1000000 \<lparr>authorization = Some ''Bearer token-admin''\<rparr>
     = Next (Some ''7f3c'')"
    by (simp add: authMiddleware_def startsWith_def verifyToken_def jwt_verify_def
        example_decode_admin example_secret example_claims_def)
  moreover have "verifyAdminToken example_env (example_db\<lparr>admin_users := []\<rparr>) 1000000
      ''token-admin'' = \<lparr>v_valid = False, v_userId = Some ''7f3c''\<rparr>"
    by (simp add: verifyAdminToken_def verifyToken_def jwt_verify_def example_decode_admin
        example_secret example_claims_def example_select_id_deleted)
  ultimately show ?thesis by simp
qed


section \<open>The image upload route\<close>

lemma upload_loop_append:
  "upload_loop E now mid (xs @ ys) acc st =
     (case upload_loop E now mid xs acc st of
        (Inl error, st') \<Rightarrow> (Inl error, st')
      | (Inr acc', st') \<Rightarrow> upload_loop E now mid ys acc' st')"
proof (induction E now mid xs acc st rule: upload_loop.induct)
  case (1 E now mid uploadedImages s db)
  show ?case by simp
next
  case (2 E now mid f rest uploadedImages s db)
  show ?case
  proof (cases "\<not> startsWith (f_mimetype f) ''image/''")
    case True
    then show ?thesis using 2(1) by simp
  next
    case valid: False
    show ?thesis
    proof (cases "f_size f > maxFileSize E")
      case True
      then show ?thesis using valid 2(2) by simp
    next
      case small: False
      obtain res s' where u: "uploadFile now f s = (res, s')"
        by (cases "uploadFile now f s")
      show ?thesis
      proof (cases res)
        case (Inl e)
        then show ?thesis using valid small u by simp
      next
        case (Inr uploadResult)
        show ?thesis
        proof (cases "count_images db mid")
          case (Inl e)
          then show ?thesis using valid small u Inr by simp
        next
          case cnt: (Inr existing)
          show ?thesis
          proof (cases "insert_image db mid (r_url uploadResult) (r_name uploadResult)
                          (r_size uploadResult) (existing = 0)")
            case (Inl e)
            then show ?thesis using valid small u Inr cnt by simp
          next
            case ins: (Inr p)
            obtain row db' where p: "p = (row, db')" by (cases p)
            show ?thesis
              using valid small u Inr cnt ins p
                2(3)[OF valid small u[symmetric] Inr cnt ins[unfolded p] refl]
              by simp
          qed
        qed
      qed
    qed
  qed
qed

lemma upload_loop_failed_upload:
  "startsWith (f_mimetype f) ''image/'' \<Longrightarrow> f_size f \<le> maxFileSize E \<Longrightarrow> f_data f = None
     \<Longrightarrow> upload_loop E now mid (f # rest) acc (s, db) =
           (Inl (Error ''File upload failed''), s\<lparr>rng_pos := rng_pos s + 16\<rparr>, db)"
  by (simp add: uploadFile_None)


lemma upload_loop_stop:
  assumes "startsWith (f_mimetype f) ''image/''"
    and "f_size f \<le> maxFileSize E"
    and "f_data f = None"
  shows "upload_loop E now mid (pre @ f # post) acc st =
           (case upload_loop E now mid pre acc st of
              (Inl error, st') \<Rightarrow> (Inl error, st')
            | (Inr acc', s1, db1) \<Rightarrow>
                (Inl (Error ''File upload failed''), s1\<lparr>rng_pos := rng_pos s1 + 16\<rparr>, db1))"
proof -
  obtain res s1 db1 where p: "upload_loop E now mid pre acc st = (res, s1, db1)"
    by (cases "upload_loop E now mid pre acc st") auto
  have stop: "upload_loop E now mid (f # post) acc' (s1, db1) =
           (Inl (Error ''File upload failed''), s1\<lparr>rng_pos := rng_pos s1 + 16\<rparr>, db1)"
    for acc'
    by (rule upload_loop_failed_upload[OF assms])
  show ?thesis
    unfolding upload_loop_append[of E now mid pre] p
    by (cases res) (simp_all only: stop prod.case sum.case)
qed

text \<open>
  C2, as amended. When a payload of the \<open>images\<close> batch passes the handler's media
  type and size checks and its \<open>uploadFile\<close> call fails, the handler answers the
  whole request with status 500 and \<open>Server error\<close>: no payload is reported, and the
  outcome, response and state, is the one the request would have had without the
  payloads that follow the failing one. They are never processed. Nothing is undone
  either: the registry and the store are left as the payloads before the failing one
  left them, with only the 16 random bytes of the failing call consumed on top.
\<close>

theorem batch_aborts_on_failed_upload:
  assumes "files req = Some entries"
    and "map_of entries ''images'' = Some (Several (pre @ f # post))"
    and "startsWith (f_mimetype f) ''image/''"
    and "f_size f \<le> maxFileSize E"
    and "f_data f = None"
  shows "fst (post_motorcycle_images E now req st) = ErrorJson 500 ''Server error'' \<and>
         post_motorcycle_images E now req st =
           post_motorcycle_images E now
             (req\<lparr>files := Some [(''images'', Several (pre @ [f]))]\<rparr>) st \<and>
         snd (post_motorcycle_images E now req st) =
           (case upload_loop E now (params_id req) pre [] st of
              (Inl error, st') \<Rightarrow> st'
            | (Inr uploadedImages, s1, db1) \<Rightarrow> (s1\<lparr>rng_pos := rng_pos s1 + 16\<rparr>, db1))"
proof -
  have ne: "entries \<noteq> []" using assms(2) by auto
  obtain res s1 db1 where
    p: "upload_loop E now (params_id req) pre [] st = (res, s1, db1)"
    by (cases "upload_loop E now (params_id req) pre [] st") auto
  define st' where "st' = (case res of Inl error \<Rightarrow> (s1, db1)
                            | Inr uploadedImages \<Rightarrow> (s1\<lparr>rng_pos := rng_pos s1 + 16\<rparr>, db1))"
  have full: "\<exists>e. upload_loop E now (params_id req) (pre @ f # post) [] st = (Inl e, st')"
    unfolding upload_loop_stop[OF assms(3,4,5)] p st'_def by (cases res) simp_all
  have cut: "\<exists>e. upload_loop E now (params_id req) (pre @ [f]) [] st = (Inl e, st')"
    unfolding upload_loop_stop[OF assms(3,4,5)] p st'_def by (cases res) simp_all
  have whole: "post_motorcycle_images E now req st = (ErrorJson 500 ''Server error'', st')"
    using assms(1,2) ne full by (auto simp: post_motorcycle_images_def)
  have part: "post_motorcycle_images E now
             (req\<lparr>files := Some [(''images'', Several (pre @ [f]))]\<rparr>) st
           = (ErrorJson 500 ''Server error'', st')"
    using cut by (auto simp: post_motorcycle_images_def)
  have final: "snd (post_motorcycle_images E now req st) =
           (case upload_loop E now (params_id req) pre [] st of
              (Inl error, st') \<Rightarrow> st'
            | (Inr uploadedImages, s1, db1) \<Rightarrow> (s1\<lparr>rng_pos := rng_pos s1 + 16\<rparr>, db1))"
    unfolding whole p st'_def by (cases res) simp_all
  from whole part final show ?thesis by simp
qed


text \<open>
  C2 as stated does not hold: in the batch \<open>x.jpg\<close>, \<open>broken.jpg\<close>, \<open>y.jpg\<close>
  the second payload fails in \<open>uploadFile\<close>; the response is 500
  \<open>Server error\<close>, only \<open>x.jpg\<close> has an image row afterwards, and the random
  source has been read twice, not three times: \<open>y.jpg\<close> was never registered.
\<close>

theorem batch_partial_success_counterexample:
  "fst (post_motorcycle_images example_env 5 example_batch (example_registry, example_db))
     = ErrorJson 500 ''Server error'' \<and>
   map img_image_name (motorcycle_images (snd (snd
     (post_motorcycle_images example_env 5 example_batch (example_registry, example_db)))))
     = [''x.jpg''] \<and>
   rng_pos (fst (snd
     (post_motorcycle_images example_env 5 example_batch (example_registry, example_db))))
     = 32"
  by (simp add: post_motorcycle_images_def example_batch_def example_file_def
      startsWith_def maxFileSize_def example_env_def uploadFile_Some uploadFile_None
      count_images_def insert_image_def example_db_def example_registry_def Let_def)


lemma example_first_id:
  "to_hex (fst (randomBytes 16 example_registry)) = ''0b30557a9fc4e90e33587da2c7ec1136''"
  by code_simp

lemma example_base64: "to_base64 [97, 98, 99] = ''YWJj''"
  by code_simp

theorem batch_aborts_on_failed_upload_witness:
  "files example_batch =
     Some [(''images'',
        Several [example_file,
                 example_file\<lparr>f_name := ''broken.jpg'', f_data := None\<rparr>,
                 example_file\<lparr>f_name := ''y.jpg''\<rparr>])] \<and>
   startsWith (f_mimetype (example_file\<lparr>f_name := ''broken.jpg'', f_data := None\<rparr>))
     ''image/'' \<and>
   f_size (example_file\<lparr>f_name := ''broken.jpg'', f_data := None\<rparr>)
     \<le> maxFileSize example_env \<and>
   f_data (example_file\<lparr>f_name := ''broken.jpg'', f_data := None\<rparr>) = None \<and>
   fst (post_motorcycle_images example_env 5 example_batch (example_registry, example_db))
     = ErrorJson 500 ''Server error'' \<and>
   post_motorcycle_images example_env 5 example_batch (example_registry, example_db) =
     post_motorcycle_images example_env 5
       (example_batch\<lparr>files := Some [(''images'',
           Several [example_file,
                    example_file\<lparr>f_name := ''broken.jpg'', f_data := None\<rparr>])]\<rparr>)
       (example_registry, example_db) \<and>
   getFile (fst (snd (post_motorcycle_images example_env 5 example_batch
                        (example_registry, example_db))))
       ''0b30557a9fc4e90e33587da2c7ec1136'' =
     Some \<lparr>fi_id = ''0b30557a9fc4e90e33587da2c7ec1136'', fi_name = ''x.jpg'', fi_size = 3,
           fi_mimetype = ''image/jpeg'', fi_dataUrl = ''data:image/jpeg;base64,YWJj'',
           fi_createdAt = 5\<rparr> \<and>
   rng_pos (fst (snd (post_motorcycle_images example_env 5 example_batch
                        (example_registry, example_db)))) = 32 \<and>
   motorcycle_images (snd (snd (post_motorcycle_images example_env 5 example_batch
                                  (example_registry, example_db)))) =
     [\<lparr>img_id = ''image-'', img_motorcycle_id = ''m1'',
       img_image_url = ''data:image/jpeg;base64,YWJj'', img_image_name = ''x.jpg'',
       img_size = 3, img_is_primary = True\<rparr>]"
proof -
  define broken where "broken = example_file\<lparr>f_name := ''broken.jpg'', f_data := None\<rparr>"
  define after where
    "after = snd (post_motorcycle_images example_env 5 example_batch
                    (example_registry, example_db))"
  have fs: "files example_batch =
     Some [(''images'', Several ([example_file] @ broken # [example_file\<lparr>f_name := ''y.jpg''\<rparr>]))]"
    by (simp add: example_batch_def broken_def)
  have m: "map_of [(''images'',
              Several ([example_file] @ broken # [example_file\<lparr>f_name := ''y.jpg''\<rparr>]))]
             ''images''
     = Some (Several ([example_file] @ broken # [example_file\<lparr>f_name := ''y.jpg''\<rparr>]))"
    by simp
  have v: "startsWith (f_mimetype broken) ''image/''"
    by (simp add: startsWith_def example_file_def broken_def)
  have z: "f_size broken \<le> maxFileSize example_env"
    by (simp add: maxFileSize_def example_env_def example_file_def broken_def)
  have d: "f_data broken = None"
    by (simp add: broken_def)
  note t = batch_aborts_on_failed_upload[OF fs m v z d, of 5 "(example_registry, example_db)"]
  have c1: "fst (post_motorcycle_images example_env 5 example_batch
                        (example_registry, example_db)) = ErrorJson 500 ''Server error''"
    by (rule conjunct1[OF t])
  have c2: "post_motorcycle_images example_env 5 example_batch (example_registry, example_db) =
     post_motorcycle_images example_env 5
       (example_batch\<lparr>files := Some [(''images'', Several [example_file, broken])]\<rparr>)
       (example_registry, example_db)"
    using conjunct1[OF conjunct2[OF t]] by simp
  have c3: "after =
     (case upload_loop example_env 5 (params_id example_batch) [example_file] []
             (example_registry, example_db) of
        (Inl error, st') \<Rightarrow> st'
      | (Inr uploadedImages, s1, db1) \<Rightarrow> (s1\<lparr>rng_pos := rng_pos s1 + 16\<rparr>, db1))"
    unfolding after_def by (rule conjunct2[OF conjunct2[OF t]])
  have data: "f_data example_file = Some [97, 98, 99]"
    by (simp add: example_file_def)
  have before: "upload_loop example_env 5 (params_id example_batch) [example_file] []
             (example_registry, example_db) =
     (Inr [\<lparr>img_id = ''image-'', img_motorcycle_id = ''m1'',
            img_image_url = ''data:image/jpeg;base64,YWJj'', img_image_name = ''x.jpg'',
            img_size = 3, img_is_primary = True\<rparr>],
      snd (uploadFile 5 example_file example_registry),
      example_db\<lparr>motorcycle_images :=
          [\<lparr>img_id = ''image-'', img_motorcycle_id = ''m1'',
            img_image_url = ''data:image/jpeg;base64,YWJj'', img_image_name = ''x.jpg'',
            img_size = 3, img_is_primary = True\<rparr>],
        uuid_pos := 1\<rparr>)"
    by (simp add: example_batch_def startsWith_def maxFileSize_def example_env_def
        uploadFile_Some count_images_def insert_image_def example_db_def Let_def
        example_file_def example_base64 del: to_base64.simps)
  have st: "after =
     ((snd (uploadFile 5 example_file example_registry))
        \<lparr>rng_pos := rng_pos (snd (uploadFile 5 example_file example_registry)) + 16\<rparr>,
      example_db\<lparr>motorcycle_images :=
          [\<lparr>img_id = ''image-'', img_motorcycle_id = ''m1'',
            img_image_url = ''data:image/jpeg;base64,YWJj'', img_image_name = ''x.jpg'',
            img_size = 3, img_is_primary = True\<rparr>],
        uuid_pos := 1\<rparr>)"
    unfolding c3 before by simp
  have g: "getFile (fst after) ''0b30557a9fc4e90e33587da2c7ec1136'' =
     Some \<lparr>fi_id = ''0b30557a9fc4e90e33587da2c7ec1136'', fi_name = ''x.jpg'', fi_size = 3,
           fi_mimetype = ''image/jpeg'', fi_dataUrl = ''data:image/jpeg;base64,YWJj'',
           fi_createdAt = 5\<rparr>"
    unfolding st
    by (simp add: getFile_def uploadFile_Some example_first_id example_file_def example_base64
        del: to_base64.simps)
  have r: "rng_pos (fst after) = 32"
    unfolding st by (simp add: uploadFile_Some example_registry_def example_file_def)
  have i: "motorcycle_images (snd after) =
     [\<lparr>img_id = ''image-'', img_motorcycle_id = ''m1'',
       img_image_url = ''data:image/jpeg;base64,YWJj'', img_image_name = ''x.jpg'',
       img_size = 3, img_is_primary = True\<rparr>]"
    unfolding st by simp
  have fs': "files example_batch =
     Some [(''images'', Several [example_file, broken, example_file\<lparr>f_name := ''y.jpg''\<rparr>])]"
    using fs by simp
  show ?thesis
    unfolding broken_def[symmetric] after_def[symmetric]
    by (intro conjI) (rule fs' v z d c1 c2 g r i)+
qed

end
